theory Spec2Isabelle
  imports Main "HOL-Library.Sublist"
begin

section \<open>Values shared by the presets and the orchestrator\<close>

text \<open>
  A thrown JavaScript value: an \<open>Error\<close> object, identified by its message.
  A call that may throw (or a promise that may reject) yields an \<open>outcome\<close>.
\<close>

datatype error = Error string

datatype 'a outcome = Returns 'a | Throws error

text \<open>
  Object literals (transformer options, message payloads). An object is the list of its
  fields in the order the literal writes them.
\<close>

datatype json =
    JBool bool
  | JNum int
  | JStr string
  | JArr "json list"
  | JObj "(string \<times> json) list"

section \<open>Regular expressions of the dispatch rules\<close>

text \<open>
  The fragment of ECMAScript regular expressions that \<open>ReactPreset.ts\<close> uses, without
  flags: literal characters, \<open>.\<close>, \<open>^\<close>, \<open>$\<close>, sequence, \<open>|\<close>, \<open>?\<close>, \<open>*\<close> and the
  negative lookahead \<open>(?!...)\<close>. File paths are strings of 8-bit characters; of the
  line terminators that \<open>.\<close> refuses, LF and CR exist in that type.
\<close>

datatype rx =
    Str string
  | Dot
  | Bol
  | Eol
  | Seq rx rx
  | Alt rx rx
  | Opt rx
  | Star rx
  | NegLook rx

definition line_terminator :: "char \<Rightarrow> bool" where
  "line_terminator c = (c = CHR 0x0A \<or> c = CHR 0x0D)"

text \<open>
  \<open>rxm r inp rest\<close>: the pattern \<open>r\<close> is tried at the position of \<open>inp\<close> where \<open>rest\<close>
  remains; the result lists what remains after each way \<open>r\<close> can match there (backtracking
  explores all of them). An iteration of \<open>*\<close> that consumes nothing is dropped, as
  ECMAScript does.
\<close>

function rxm :: "rx \<Rightarrow> string \<Rightarrow> string \<Rightarrow> string list" where
  "rxm (Str w) inp rest = (if prefix w rest then [drop (length w) rest] else [])"
| "rxm Dot inp rest =
     (case rest of [] \<Rightarrow> [] | c # cs \<Rightarrow> if line_terminator c then [] else [cs])"
| "rxm Bol inp rest = (if length rest = length inp then [rest] else [])"
| "rxm Eol inp rest = (if rest = [] then [rest] else [])"
| "rxm (Seq a b) inp rest = concat (map (rxm b inp) (rxm a inp rest))"
| "rxm (Alt a b) inp rest = rxm a inp rest @ rxm b inp rest"
| "rxm (Opt a) inp rest = rxm a inp rest @ [rest]"
| "rxm (Star a) inp rest =
     concat (map (rxm (Star a) inp)
                 (filter (\<lambda>r. length r < length rest) (rxm a inp rest))) @ [rest]"
| "rxm (NegLook a) inp rest = (if rxm a inp rest = [] then [rest] else [])"
  by pat_completeness auto
termination
  by (relation "inv_image (less_than <*lex*> less_than) (\<lambda>(r, inp, rest). (size r, length rest))")
     auto

text \<open>\<open>RegExp.prototype.test\<close>: the pattern is tried at every position, from the first.\<close>

fun search :: "rx \<Rightarrow> string \<Rightarrow> string \<Rightarrow> bool" where
  "search r inp [] = (rxm r inp [] \<noteq> [])"
| "search r inp (c # cs) = (rxm r inp (c # cs) \<noteq> [] \<or> search r inp cs)"

definition RegExp_test :: "rx \<Rightarrow> string \<Rightarrow> bool" where
  "RegExp_test r s = search r s s"

text \<open>
  A pattern built from literals, sequence, \<open>|\<close> and \<open>?\<close> alone matches finitely many
  words; \<open>words\<close> lists them. It serves to say what the dispatch rules accept.
\<close>

fun plain :: "rx \<Rightarrow> bool" where
  "plain (Str w) = True"
| "plain (Seq a b) = (plain a \<and> plain b)"
| "plain (Alt a b) = (plain a \<and> plain b)"
| "plain (Opt a) = plain a"
| "plain r = False"

fun words :: "rx \<Rightarrow> string list" where
  "words (Str w) = [w]"
| "words (Seq a b) = [u @ v. u \<leftarrow> words a, v \<leftarrow> words b]"
| "words (Alt a b) = words a @ words b"
| "words (Opt a) = words a @ [[]]"
| "words r = []"

text \<open>\<open>/^(?!\/node_modules\/).*\.(((m|c)?jsx?)|tsx)$/\<close>\<close>

definition jsx_refresh_rule :: rx where
  "jsx_refresh_rule =
     Seq Bol (Seq (NegLook (Str ''/node_modules/'')) (Seq (Star Dot) (Seq (Str ''.'')
       (Seq (Alt (Seq (Opt (Alt (Str ''m'') (Str ''c''))) (Seq (Str ''js'') (Opt (Str ''x''))))
                 (Str ''tsx''))
            Eol))))"

text \<open>\<open>/\.(m|c)?(t|j)sx?$/\<close>\<close>

definition script_rule :: rx where
  "script_rule =
     Seq (Str ''.'') (Seq (Opt (Alt (Str ''m'') (Str ''c''))) (Seq (Alt (Str ''t'') (Str ''j''))
       (Seq (Str ''s'') (Seq (Opt (Str ''x'')) Eol))))"

text \<open>\<open>/\.css$/\<close>\<close>

definition css_rule :: rx where
  "css_rule = Seq (Str ''.css'') Eol"

section \<open>ReactPreset\<close>

record module =
  filepath :: string
  source :: string

type_synonym transformer_binding = "string \<times> json"

text \<open>\<open>String.prototype.endsWith\<close>\<close>

definition endsWith :: "string \<Rightarrow> string \<Rightarrow> bool" where
  "endsWith s w = suffix w s"

definition mapTransformers :: "module \<Rightarrow> transformer_binding list outcome" where
  "mapTransformers m =
     (if RegExp_test jsx_refresh_rule (filepath m) then
        Returns [(''babel-transformer'',
              JObj [(''presets'',
                     JArr [JArr [JStr ''react'', JObj [(''runtime'', JStr ''automatic'')]]]),
                    (''plugins'',
                     JArr [JArr [JStr ''react-refresh/babel'',
                                 JObj [(''skipEnvCheck'', JBool True)]]])]),
             (''react-refresh-transformer'', JObj [])]
      else if RegExp_test script_rule (filepath m) \<and> \<not> endsWith (filepath m) ''.d.ts'' then
        Returns [(''babel-transformer'',
              JObj [(''presets'',
                     JArr [JArr [JStr ''react'', JObj [(''runtime'', JStr ''automatic'')]]])])]
      else if RegExp_test css_rule (filepath m) then
        Returns [(''css-transformer'', JObj []), (''style-transformer'', JObj [])]
      else Throws (Error (''No transformer for '' @ filepath m)))"

text \<open>
  \<open>DepMap\<close>: package name to version range. \<open>!dependencies['react-refresh']\<close> holds
  when the key is absent and when its value is the empty string.
\<close>

type_synonym DepMap = "string \<rightharpoonup> string"

definition falsy :: "string option \<Rightarrow> bool" where
  "falsy v = (case v of None \<Rightarrow> True | Some str \<Rightarrow> str = [])"

definition augmentDependencies :: "DepMap \<Rightarrow> DepMap" where
  "augmentDependencies dependencies =
     (let dependencies1 =
            (if falsy (dependencies ''react-refresh'')
             then dependencies(''react-refresh'' \<mapsto> ''^0.11.0'')
             else dependencies)
      in dependencies1(''core-js'' \<mapsto> ''3.22.7''))"

text \<open>
  \<open>ReactPreset.init\<close> awaits \<open>super.init\<close>, then \<open>Promise.all\<close> of four registrations.
  \<open>Preset.init\<close> and \<open>Preset.registerTransformer\<close> belong to the base class
  \<open>Preset\<close>, defined in another module: how the promise of \<open>super.init\<close> and the
  promise of each registration settle are parameters.

  \<open>Promise.all\<close> rejects with the reason of the first input promise that rejects, in the
  order in which the promises settle, and fulfils with all values when none rejects. The
  promises are started together, so the order of settlement is a parameter as well: the
  list \<open>settled\<close> of the indices of the promises, earliest first.
\<close>

datatype transformer =
  BabelTransformer | ReactRefreshTransformer | CSSTransformer | StyleTransformer

fun first_rejection :: "'a outcome list \<Rightarrow> nat list \<Rightarrow> error option" where
  "first_rejection promises [] = None"
| "first_rejection promises (i # settled) =
     (if i < length promises then
        (case promises ! i of
           Throws e \<Rightarrow> Some e
         | Returns v \<Rightarrow> first_rejection promises settled)
      else first_rejection promises settled)"

definition Promise_all :: "'a outcome list \<Rightarrow> nat list \<Rightarrow> 'a list outcome" where
  "Promise_all promises settled =
     (case first_rejection promises settled of
        Some e \<Rightarrow> Throws e
      | None \<Rightarrow> Returns [v. Returns v \<leftarrow> promises])"

definition ReactPreset_init ::
  "unit outcome \<Rightarrow> (transformer \<Rightarrow> unit outcome) \<Rightarrow> nat list \<Rightarrow> unit outcome" where
  "ReactPreset_init super_init registerTransformer settled =
     (case super_init of
        Throws e \<Rightarrow> Throws e
      | Returns u \<Rightarrow>
          (case Promise_all
                  [registerTransformer BabelTransformer,
                   registerTransformer ReactRefreshTransformer,
                   registerTransformer CSSTransformer,
                   registerTransformer StyleTransformer] settled of
             Throws e \<Rightarrow> Throws e
           | Returns vs \<Rightarrow> Returns ()))"

section \<open>The preset registry\<close>

text \<open>
  A preset is identified by its class. \<open>getPreset\<close> returns the preset together with the
  warnings it hands to \<open>logger.warn\<close>; it has no \<open>throw\<close>.
\<close>

datatype preset = ReactPreset | SolidPreset

definition PRESET_MAP :: "(string \<times> preset) list" where
  "PRESET_MAP = [(''react'', ReactPreset), (''solid'', SolidPreset)]"

definition getPreset :: "string \<Rightarrow> preset \<times> string list" where
  "getPreset presetName =
     (case map_of PRESET_MAP presetName of
        None \<Rightarrow> (ReactPreset, [''Unknown preset '' @ presetName @ '', falling back to React''])
      | Some foundPreset \<Rightarrow> (foundPreset, []))"

section \<open>The compile cycle of SandpackInstance\<close>

text \<open>
  What a cycle does to the outside is recorded as a trace: the messages given to
  \<open>messageBus.sendMessage\<close> (type and payload, the payload absent when the call has one
  argument) and the calls made to the bundler, the integrations and
  \<open>logger.setLogLevel\<close>. What is only written to the log (\<open>logger.debug\<close>,
  \<open>logger.info\<close>, \<open>logger.error\<close>, with the times read from \<open>Date.now\<close>) is left
  out.
\<close>

datatype call =
    SetLogLevel nat
  | ConfigureFS "bool option"
  | ResetModules
  | LoadIntegration string
  | InitPreset string
  | Compile "module list"
  | ReplaceHTML
  | Evaluate

datatype event = Send string "json option" | Call call

record compileRequest =
  modules :: "(string \<times> module) list"
  template :: string
  logLevel :: "nat option"
  hasFileResolver :: "bool option"
  reactDevTools :: "string option"

text \<open>
  The collaborators of \<open>handleCompile\<close> are defined in other modules (\<open>Bundler\<close>,
  \<open>errorMessage\<close>, \<open>getDocumentHeight\<close>); what they yield during the cycle is a
  parameter:
  \<^item> \<open>isFirstLoad\<close>: the bundler's flag;
  \<^item> \<open>initPreset\<close>: how the promise of \<open>bundler.initPreset(template)\<close> settles;
  \<^item> \<open>compile\<close>: how the promise of \<open>bundler.compile(files)\<close> settles; its value is the
    \<open>evaluate\<close> function, given by the outcome of calling it, or a falsy value (\<open>None\<close>);
  \<^item> \<open>getDocumentHeight\<close>: the height read by \<open>sendResizeEvent\<close>;
  \<^item> \<open>errorMessage\<close>: the payload built from an error.

  A failure of \<open>integrations.load\<close> is caught and logged, by the \<open>try\<close> around the
  call and the \<open>catch\<close> on its promise, and never reaches the cycle. The statuses that
  the bundler publishes through \<open>onStatusChange\<close> are forwarded by a listener that
  \<open>init\<close> installs, outside \<open>handleCompile\<close>, and are not part of the trace.
\<close>

record collaborators =
  isFirstLoad :: bool
  initPreset :: "string \<Rightarrow> unit outcome"
  compile :: "module list \<Rightarrow> unit outcome option outcome"
  getDocumentHeight :: int
  errorMessage :: "error \<Rightarrow> json"

record sandpack =
  lastHeight :: int
  trace :: "event list"

definition sendMessage :: "string \<Rightarrow> json option \<Rightarrow> sandpack \<Rightarrow> sandpack" where
  "sendMessage type payload s = s\<lparr>trace := trace s @ [Send type payload]\<rparr>"

definition bundler_call :: "call \<Rightarrow> sandpack \<Rightarrow> sandpack" where
  "bundler_call c s = s\<lparr>trace := trace s @ [Call c]\<rparr>"

text \<open>
  Modelled from the spec: the methods \<open>configureFS\<close>, \<open>resetModules\<close> and
  \<open>replaceHTML\<close> of \<open>Bundler\<close>, of which \<open>index.ts\<close> has only the calls. The spec
  gives them no failure ("configure the filesystem mode flag", "reset module state", and
  for rendering "this step has no failure mode defined (assumed always safe)"): each is a
  call that returns.
\<close>

definition configureFS :: "bool option \<Rightarrow> sandpack \<Rightarrow> sandpack" where
  "configureFS hasAsyncFileResolver s = bundler_call (ConfigureFS hasAsyncFileResolver) s"

definition resetModules :: "sandpack \<Rightarrow> sandpack" where
  "resetModules s = bundler_call ResetModules s"

definition replaceHTML :: "sandpack \<Rightarrow> sandpack" where
  "replaceHTML s = bundler_call ReplaceHTML s"

definition sendResizeEvent :: "collaborators \<Rightarrow> sandpack \<Rightarrow> sandpack" where
  "sendResizeEvent env s =
     (let height = getDocumentHeight env;
          s1 = (if lastHeight s \<noteq> height
                then sendMessage ''resize'' (Some (JObj [(''height'', JNum height)])) s
                else s)
      in s1\<lparr>lastHeight := height\<rparr>)"

text \<open>
  \<open>handleCompile\<close>, statement by statement. The result is how the promise of the
  \<open>async\<close> function settles, with the state reached.
\<close>

definition handleCompile ::
  "collaborators \<Rightarrow> compileRequest \<Rightarrow> sandpack \<Rightarrow> unit outcome \<times> sandpack" where
  "handleCompile env compileRequest s0 =
     (let s1 = (case logLevel compileRequest of
                  Some l \<Rightarrow> bundler_call (SetLogLevel l) s0
                | None \<Rightarrow> s0);
          s2 = configureFS (hasFileResolver compileRequest) s1;
          s3 = sendMessage ''start'' (Some (JObj [(''firstLoad'', JBool (isFirstLoad env))])) s2;
          s4 = sendMessage ''status'' (Some (JObj [(''status'', JStr ''initializing'')])) s3;
          s5 = (if isFirstLoad env then resetModules s4 else s4);
          s6 = (case reactDevTools compileRequest of
                  Some v \<Rightarrow>
                    if v \<noteq> [] then bundler_call (LoadIntegration (''react-devtools-'' @ v)) s5
                    else s5
                | None \<Rightarrow> s5);
          s7 = bundler_call (InitPreset (template compileRequest)) s6
      in case initPreset env (template compileRequest) of
           Throws e \<Rightarrow> (Throws e, s7)
         | Returns u \<Rightarrow>
             (let files = map snd (modules compileRequest);
                  s8 = bundler_call (Compile files) s7;
                  (evaluate, s9) =
                    (case compile env files of
                       Returns val \<Rightarrow>
                         (val,
                          sendMessage ''done'' (Some (JObj [(''compilatonError'', JBool False)])) s8)
                     | Throws error \<Rightarrow>
                         (None,
                          sendMessage ''done'' (Some (JObj [(''compilatonError'', JBool True)]))
                            (sendMessage ''action'' (Some (errorMessage env error)) s8)));
                  s10 = replaceHTML s9;
                  s11 =
                    (case evaluate of
                       None \<Rightarrow> s10
                     | Some run \<Rightarrow>
                         (let s10a = sendMessage ''status''
                                       (Some (JObj [(''status'', JStr ''evaluating'')])) s10;
                              s10b = bundler_call Evaluate s10a
                          in case run of
                               Returns r \<Rightarrow>
                                 sendMessage ''success'' None (sendResizeEvent env s10b)
                             | Throws error \<Rightarrow>
                                 sendMessage ''action'' (Some (errorMessage env error)) s10b))
              in (Returns (), sendMessage ''status'' (Some (JObj [(''status'', JStr ''idle'')])) s11)))"

text \<open>The events of one cycle, and the payloads of its messages of one type.\<close>

definition cycle_trace :: "collaborators \<Rightarrow> compileRequest \<Rightarrow> sandpack \<Rightarrow> event list" where
  "cycle_trace env compileRequest s =
     trace (snd (handleCompile env compileRequest (s\<lparr>trace := []\<rparr>)))"

definition cycle_result :: "collaborators \<Rightarrow> compileRequest \<Rightarrow> sandpack \<Rightarrow> unit outcome" where
  "cycle_result env compileRequest s = fst (handleCompile env compileRequest (s\<lparr>trace := []\<rparr>))"

fun sent :: "string \<Rightarrow> event list \<Rightarrow> json option list" where
  "sent type [] = []"
| "sent type (Send t payload # evs) = (if t = type then payload # sent type evs else sent type evs)"
| "sent type (Call c # evs) = sent type evs"

definition status :: "string \<Rightarrow> json option" where
  "status v = Some (JObj [(''status'', JStr v)])"

text \<open>The field of a payload, when the payload is an object that has it.\<close>

fun field :: "string \<Rightarrow> json option \<Rightarrow> json option" where
  "field name (Some (JObj fs)) = map_of fs name"
| "field name payload = None"

text \<open>
  The events of a cycle up to the call of \<open>bundler.initPreset\<close>: what every cycle does
  before its first \<open>await\<close>.
\<close>

definition prologue :: "collaborators \<Rightarrow> compileRequest \<Rightarrow> event list" where
  "prologue env req =
     (case logLevel req of Some l \<Rightarrow> [Call (SetLogLevel l)] | None \<Rightarrow> []) @
     [Call (ConfigureFS (hasFileResolver req)),
      Send ''start'' (Some (JObj [(''firstLoad'', JBool (isFirstLoad env))])),
      Send ''status'' (status ''initializing'')] @
     (if isFirstLoad env then [Call ResetModules] else []) @
     (case reactDevTools req of
        Some v \<Rightarrow> if v \<noteq> [] then [Call (LoadIntegration (''react-devtools-'' @ v))] else []
      | None \<Rightarrow> []) @
     [Call (InitPreset (template req))]"

subsection \<open>Concrete cycles\<close>

definition example_request :: compileRequest where
  "example_request =
     \<lparr>modules = [(''/a.jsx'', \<lparr>filepath = ''/a.jsx'', source = ''<App/>''\<rparr>)],
      template = ''react'', logLevel = None, hasFileResolver = None, reactDevTools = None\<rparr>"

definition fresh_instance :: sandpack where
  "fresh_instance = \<lparr>lastHeight = 0, trace = []\<rparr>"

definition show_error :: "error \<Rightarrow> json" where
  "show_error e =
     (case e of Error m \<Rightarrow> JObj [(''action'', JStr ''show-error''), (''message'', JStr m)])"

definition init_failure :: collaborators where
  "init_failure =
     \<lparr>isFirstLoad = True,
      initPreset = (\<lambda>t. Throws (Error ''transformer failed to load'')),
      compile = (\<lambda>files. Returns (Some (Returns ()))),
      getDocumentHeight = 150,
      errorMessage = show_error\<rparr>"

definition compile_failure :: collaborators where
  "compile_failure =
     \<lparr>isFirstLoad = True,
      initPreset = (\<lambda>t. Returns ()),
      compile = (\<lambda>files. Throws (Error ''Unexpected token'')),
      getDocumentHeight = 150,
      errorMessage = show_error\<rparr>"

definition evaluation_failure :: collaborators where
  "evaluation_failure =
     \<lparr>isFirstLoad = False,
      initPreset = (\<lambda>t. Returns ()),
      compile = (\<lambda>files. Returns (Some (Throws (Error ''x is not defined'')))),
      getDocumentHeight = 150,
      errorMessage = show_error\<rparr>"

text \<open>A registration of the CSS transformer that fails while the other three succeed.\<close>

definition css_fails :: "transformer \<Rightarrow> unit outcome" where
  "css_fails t = (if t = CSSTransformer then Throws (Error ''css worker failed'') else Returns ())"

definition css_init_failure :: collaborators where
  "css_init_failure =
     \<lparr>isFirstLoad = True,
      initPreset = (\<lambda>t. ReactPreset_init (Returns ()) css_fails [3, 0, 2, 1]),
      compile = (\<lambda>files. Returns (Some (Returns ()))),
      getDocumentHeight = 150,
      errorMessage = show_error\<rparr>"

section \<open>Properties of the react preset\<close>

subsection \<open>What the dispatch rules accept\<close>

lemma search_bol: "length rest < length inp \<Longrightarrow> \<not> search (Seq Bol r) inp rest"
  by (induction rest) auto

lemma rxm_plain:
  "plain r \<Longrightarrow> set (rxm r inp rest) = {r'. \<exists>w \<in> set (words r). rest = w @ r'}"
proof (induction r arbitrary: rest)
  case (Str w)
  show ?case by (auto simp: prefix_def)
next
  case (Seq a b)
  then have a: "\<And>rest. set (rxm a inp rest) = {r'. \<exists>w \<in> set (words a). rest = w @ r'}"
    and b: "\<And>rest. set (rxm b inp rest) = {r'. \<exists>w \<in> set (words b). rest = w @ r'}"
    by simp_all
  show ?case
    by (auto simp: a b)
next
  case (Alt a b)
  then show ?case by auto
next
  case (Opt a)
  then show ?case by auto
qed (simp_all del: rxm.simps)

lemma rxm_star_dot_step:
  "rxm (Star Dot) inp (c # cs) =
     (if line_terminator c then [c # cs] else rxm (Star Dot) inp cs @ [c # cs])"
  by (subst rxm.simps(8)) (simp del: rxm.simps(8))

lemma rxm_star_dot:
  "set (rxm (Star Dot) inp rest) =
     {r'. \<exists>w. rest = w @ r' \<and> (\<forall>c \<in> set w. \<not> line_terminator c)}"
proof (induction rest)
  case Nil
  show ?case by simp
next
  case (Cons c cs)
  show ?case
    unfolding rxm_star_dot_step
    by (auto simp del: rxm.simps(8) simp: Cons.IH Cons_eq_append_conv)
qed

lemma rxm_Seq_nonempty:
  "rxm (Seq a b) inp rest \<noteq> [] \<longleftrightarrow> (\<exists>r' \<in> set (rxm a inp rest). rxm b inp r' \<noteq> [])"
  by (simp add: concat_eq_Nil_conv del: rxm.simps(8))

lemma rxm_plain_Eol:
  assumes "plain p"
  shows "rxm (Seq p Eol) inp rest \<noteq> [] \<longleftrightarrow> rest \<in> set (words p)"
proof -
  have "rxm (Seq p Eol) inp rest \<noteq> [] \<longleftrightarrow> [] \<in> set (rxm p inp rest)"
    unfolding rxm_Seq_nonempty by auto
  then show ?thesis by (simp add: rxm_plain[OF assms])
qed

lemma search_plain_eol:
  assumes "plain p"
  shows "search (Seq p Eol) inp rest \<longleftrightarrow> (\<exists>w \<in> set (words p). suffix w rest)"
proof (induction rest)
  case Nil
  show ?case using rxm_plain_Eol[OF assms, of inp "[]"] by auto
next
  case (Cons c cs)
  have "search (Seq p Eol) inp (c # cs) \<longleftrightarrow>
          rxm (Seq p Eol) inp (c # cs) \<noteq> [] \<or> search (Seq p Eol) inp cs"
    by (rule search.simps)
  then show ?case
    unfolding rxm_plain_Eol[OF assms] Cons.IH by (auto simp: suffix_Cons)
qed

lemma concat_map_concat:
  "concat (map f (concat xss)) = concat (map (\<lambda>xs. concat (map f xs)) xss)"
  by (induction xss) simp_all

lemma rxm_Seq_assoc: "rxm (Seq a (Seq b c)) inp rest = rxm (Seq (Seq a b) c) inp rest"
proof -
  have "rxm (Seq b c) inp = (\<lambda>x. concat (map (rxm c inp) (rxm b inp x)))"
    by (rule ext) (simp del: rxm.simps(8))
  then show ?thesis
    by (simp add: concat_map_concat comp_def del: rxm.simps(8))
qed

lemma rxm_NegLook_Str:
  "rxm (Seq (NegLook (Str w)) r) inp rest = (if prefix w rest then [] else rxm r inp rest)"
  by (simp del: rxm.simps(8))

lemma rxm_Seq_cong:
  "(\<And>rest. rxm b inp rest = rxm b' inp rest) \<Longrightarrow> rxm (Seq a b) inp rest = rxm (Seq a b') inp rest"
  by (simp del: rxm.simps(8) cong: map_cong)

lemma search_cong:
  "(\<And>rest. rxm r inp rest = rxm r' inp rest) \<Longrightarrow> search r inp rest = search r' inp rest"
  by (induction rest) simp_all

lemma search_Bol: "search (Seq Bol r) inp inp \<longleftrightarrow> rxm r inp inp \<noteq> []"
proof (cases inp)
  case Nil
  then show ?thesis by (simp del: rxm.simps(8))
next
  case (Cons c cs)
  have "\<not> search (Seq Bol r) inp cs"
    by (rule search_bol) (simp add: Cons)
  then show ?thesis
    unfolding Cons by (simp del: rxm.simps(8))
qed

lemma script_rule_accepts:
  "RegExp_test script_rule fp \<longleftrightarrow>
     (\<exists>w \<in> set [''.mtsx'', ''.mts'', ''.mjsx'', ''.mjs'', ''.ctsx'', ''.cts'', ''.cjsx'',
                   ''.cjs'', ''.tsx'', ''.ts'', ''.jsx'', ''.js'']. endsWith fp w)"
proof -
  let ?p = "Seq (Seq (Seq (Seq (Str ''.'') (Opt (Alt (Str ''m'') (Str ''c''))))
                 (Alt (Str ''t'') (Str ''j''))) (Str ''s'')) (Opt (Str ''x''))"
  have w: "words ?p = [''.mtsx'', ''.mts'', ''.mjsx'', ''.mjs'', ''.ctsx'', ''.cts'', ''.cjsx'',
                   ''.cjs'', ''.tsx'', ''.ts'', ''.jsx'', ''.js'']"
    by simp
  have "rxm script_rule inp rest = rxm (Seq ?p Eol) inp rest" for inp rest
    unfolding script_rule_def by (simp only: rxm_Seq_assoc)
  then have "RegExp_test script_rule fp = search (Seq ?p Eol) fp fp"
    unfolding RegExp_test_def by (rule search_cong)
  also have "\<dots> = (\<exists>w \<in> set (words ?p). suffix w fp)"
    by (rule search_plain_eol) simp
  finally show ?thesis
    unfolding w endsWith_def .
qed

lemma css_rule_accepts: "RegExp_test css_rule fp \<longleftrightarrow> endsWith fp ''.css''"
  unfolding RegExp_test_def css_rule_def endsWith_def
  by (simp add: search_plain_eol)

lemma jsx_tail:
  "rxm (Seq (Str ''.'')
       (Seq (Alt (Seq (Opt (Alt (Str ''m'') (Str ''c''))) (Seq (Str ''js'') (Opt (Str ''x''))))
                 (Str ''tsx''))
            Eol)) inp rest =
   rxm (Seq (Seq (Str ''.'')
             (Alt (Seq (Seq (Opt (Alt (Str ''m'') (Str ''c''))) (Str ''js'')) (Opt (Str ''x'')))
                  (Str ''tsx''))) Eol) inp rest"
proof -
  have a: "rxm (Seq (Opt (Alt (Str ''m'') (Str ''c''))) (Seq (Str ''js'') (Opt (Str ''x'')))) inp r =
        rxm (Seq (Seq (Opt (Alt (Str ''m'') (Str ''c''))) (Str ''js'')) (Opt (Str ''x''))) inp r" for r
    by (rule rxm_Seq_assoc)
  have b: "rxm (Alt (Seq (Opt (Alt (Str ''m'') (Str ''c''))) (Seq (Str ''js'') (Opt (Str ''x''))))
               (Str ''tsx'')) inp r =
        rxm (Alt (Seq (Seq (Opt (Alt (Str ''m'') (Str ''c''))) (Str ''js'')) (Opt (Str ''x'')))
               (Str ''tsx'')) inp r" for r
    unfolding rxm.simps(6) a ..
  show ?thesis
    unfolding rxm_Seq_assoc[of "Str ''.''"]
    unfolding rxm.simps(5)[of _ Eol] rxm.simps(5)[of "Str ''.''"] b ..
qed

lemma jsx_refresh_rule_accepts:
  "RegExp_test jsx_refresh_rule fp \<longleftrightarrow>
     \<not> prefix ''/node_modules/'' fp \<and>
     (\<exists>stem. \<exists>w \<in> set [''.mjsx'', ''.mjs'', ''.cjsx'', ''.cjs'', ''.jsx'', ''.js'', ''.tsx''].
        fp = stem @ w \<and> (\<forall>c \<in> set stem. \<not> line_terminator c))"
proof -
  let ?p = "Seq (Str ''.'')
             (Alt (Seq (Seq (Opt (Alt (Str ''m'') (Str ''c''))) (Str ''js'')) (Opt (Str ''x'')))
                  (Str ''tsx''))"
  let ?tail = "Seq (Str ''.'')
       (Seq (Alt (Seq (Opt (Alt (Str ''m'') (Str ''c''))) (Seq (Str ''js'') (Opt (Str ''x''))))
                 (Str ''tsx''))
            Eol)"
  have w: "words ?p = [''.mjsx'', ''.mjs'', ''.cjsx'', ''.cjs'', ''.jsx'', ''.js'', ''.tsx'']"
    by simp
  have "RegExp_test jsx_refresh_rule fp \<longleftrightarrow>
          rxm (Seq (NegLook (Str ''/node_modules/'')) (Seq (Star Dot) ?tail)) fp fp \<noteq> []"
    unfolding RegExp_test_def jsx_refresh_rule_def by (rule search_Bol)
  also have "\<dots> \<longleftrightarrow> \<not> prefix ''/node_modules/'' fp \<and> rxm (Seq (Star Dot) ?tail) fp fp \<noteq> []"
    unfolding rxm_NegLook_Str
    by (cases "prefix ''/node_modules/'' fp") (simp_all only: if_True if_False simp_thms)
  also have "rxm (Seq (Star Dot) ?tail) fp fp \<noteq> [] \<longleftrightarrow>
      (\<exists>r' \<in> set (rxm (Star Dot) fp fp). r' \<in> set (words ?p))"
  proof -
    have "rxm (Seq ?p Eol) fp r \<noteq> [] \<longleftrightarrow> r \<in> set (words ?p)" for r
      by (rule rxm_plain_Eol) simp
    then show ?thesis
      unfolding rxm_Seq_nonempty[of "Star Dot"] jsx_tail by (simp only:)
  qed
  also have "\<dots> \<longleftrightarrow>
      (\<exists>stem. \<exists>w \<in> set [''.mjsx'', ''.mjs'', ''.cjsx'', ''.cjs'', ''.jsx'', ''.js'', ''.tsx''].
         fp = stem @ w \<and> (\<forall>c \<in> set stem. \<not> line_terminator c))"
    unfolding rxm_star_dot w by blast
  finally show ?thesis .
qed

subsection \<open>Dispatch\<close>

text \<open>
  Claim C4. For every module whose file path matches none of the dispatch rules of the
  react preset (the second rule being its pattern together with "does not end with
  \<open>.d.ts\<close>"), \<open>mapTransformers\<close> fails with the error whose message is
  \<open>No transformer for\<close> followed by that file path; and for no module does
  \<open>mapTransformers\<close> return an empty chain.
\<close>

theorem mapTransformers_unmatched:
  "(\<not> RegExp_test jsx_refresh_rule (filepath m) \<and>
    \<not> (RegExp_test script_rule (filepath m) \<and> \<not> endsWith (filepath m) ''.d.ts'') \<and>
    \<not> RegExp_test css_rule (filepath m)
    \<longrightarrow> mapTransformers m = Throws (Error (''No transformer for '' @ filepath m))) \<and>
   mapTransformers m \<noteq> Returns []"
  by (simp add: mapTransformers_def)

text \<open>
  Claim C4 at the module \<open>/readme.md\<close>, which no rule matches.
\<close>

theorem mapTransformers_unmatched_witness:
  "(\<not> RegExp_test jsx_refresh_rule ''/readme.md'' \<and>
    \<not> (RegExp_test script_rule ''/readme.md'' \<and> \<not> endsWith ''/readme.md'' ''.d.ts'') \<and>
    \<not> RegExp_test css_rule ''/readme.md'') \<and>
   mapTransformers \<lparr>filepath = ''/readme.md'', source = ''# readme''\<rparr> =
     Throws (Error ''No transformer for /readme.md'')"
  using mapTransformers_unmatched [of "\<lparr>filepath = ''/readme.md'', source = ''# readme''\<rparr>"]
  by (simp add: RegExp_test_def jsx_refresh_rule_def script_rule_def css_rule_def
        line_terminator_def)

text \<open>
  Claim C5. Under the react preset, \<open>mapTransformers\<close> on a module with file path
  \<open>/a.jsx\<close> returns exactly the chain of two bindings, the babel transformer (with the
  react preset and the react-refresh plugin in its options) and then the react-refresh
  transformer; on a module with file path \<open>/a.unknownext\<close> it fails with an error that
  cites \<open>/a.unknownext\<close>.
\<close>

theorem mapTransformers_scenario:
  "mapTransformers \<lparr>filepath = ''/a.jsx'', source = src\<rparr> =
     Returns [(''babel-transformer'',
           JObj [(''presets'',
                  JArr [JArr [JStr ''react'', JObj [(''runtime'', JStr ''automatic'')]]]),
                 (''plugins'',
                  JArr [JArr [JStr ''react-refresh/babel'',
                              JObj [(''skipEnvCheck'', JBool True)]]])]),
          (''react-refresh-transformer'', JObj [])] \<and>
   mapTransformers \<lparr>filepath = ''/a.unknownext'', source = src\<rparr> =
     Throws (Error ''No transformer for /a.unknownext'')"
  by (simp add: mapTransformers_def RegExp_test_def jsx_refresh_rule_def script_rule_def
        css_rule_def line_terminator_def endsWith_def)

text \<open>
  Claim C10 as stated fails for declaration files: \<open>/node_modules/@types/react/index.d.ts\<close>
  is under \<open>/node_modules/\<close> and matches the pattern of the plain babel rule, but the
  rule excludes paths that end with \<open>.d.ts\<close>, and \<open>mapTransformers\<close> fails.
\<close>

theorem node_modules_declaration_counterexample:
  "prefix ''/node_modules/'' ''/node_modules/@types/react/index.d.ts'' \<and>
   RegExp_test script_rule ''/node_modules/@types/react/index.d.ts'' \<and>
   mapTransformers \<lparr>filepath = ''/node_modules/@types/react/index.d.ts'', source = ''''\<rparr> =
     Throws (Error ''No transformer for /node_modules/@types/react/index.d.ts'')"
proof -
  have a: "prefix ''/node_modules/'' ''/node_modules/@types/react/index.d.ts''"
    by simp
  have b: "endsWith ''/node_modules/@types/react/index.d.ts'' ''.ts''"
    by (simp add: endsWith_def suffix_to_prefix)
  have c: "endsWith ''/node_modules/@types/react/index.d.ts'' ''.d.ts''"
    by (simp add: endsWith_def suffix_to_prefix)
  have d: "\<not> endsWith ''/node_modules/@types/react/index.d.ts'' ''.css''"
    by (simp add: endsWith_def suffix_to_prefix)
  have script: "RegExp_test script_rule ''/node_modules/@types/react/index.d.ts''"
    unfolding script_rule_accepts using b by simp
  have no: "\<not> RegExp_test jsx_refresh_rule ''/node_modules/@types/react/index.d.ts''"
    using a by (simp only: jsx_refresh_rule_accepts simp_thms)
  have css: "\<not> RegExp_test css_rule ''/node_modules/@types/react/index.d.ts''"
    using d by (simp only: css_rule_accepts simp_thms)
  from a script no css c show ?thesis
    by (simp add: mapTransformers_def)
qed

text \<open>
  Claim C10, amended. Under the react preset, for every module whose file path begins with
  \<open>/node_modules/\<close>: the path does not match the JSX-with-refresh rule (the negative
  lookahead refuses it), so no chain returned for it contains the react-refresh
  transformer. A script file there (a path ending in one of the suffixes of the plain
  babel rule) matches the pattern of the plain babel rule; unless its path ends with
  \<open>.d.ts\<close>, it gets the chain of the babel transformer alone rather than failing; when
  its path ends with \<open>.d.ts\<close>, the rule excludes it and \<open>mapTransformers\<close> fails with
  the error that names the path.
\<close>

theorem node_modules_never_refresh:
  assumes "prefix ''/node_modules/'' (filepath m)"
  shows "\<not> RegExp_test jsx_refresh_rule (filepath m) \<and>
         (\<forall>chain. mapTransformers m = Returns chain \<longrightarrow>
            ''react-refresh-transformer'' \<notin> fst ` set chain) \<and>
         ((\<exists>w \<in> set [''.mtsx'', ''.mts'', ''.mjsx'', ''.mjs'', ''.ctsx'', ''.cts'', ''.cjsx'',
                        ''.cjs'', ''.tsx'', ''.ts'', ''.jsx'', ''.js'']. endsWith (filepath m) w)
          \<longrightarrow> RegExp_test script_rule (filepath m)) \<and>
         ((\<exists>w \<in> set [''.mtsx'', ''.mts'', ''.mjsx'', ''.mjs'', ''.ctsx'', ''.cts'', ''.cjsx'',
                        ''.cjs'', ''.tsx'', ''.ts'', ''.jsx'', ''.js'']. endsWith (filepath m) w) \<and>
          \<not> endsWith (filepath m) ''.d.ts''
          \<longrightarrow> RegExp_test script_rule (filepath m) \<and>
              mapTransformers m =
                Returns [(''babel-transformer'',
                          JObj [(''presets'',
                                 JArr [JArr [JStr ''react'',
                                             JObj [(''runtime'', JStr ''automatic'')]]])])]) \<and>
         (endsWith (filepath m) ''.d.ts''
          \<longrightarrow> RegExp_test script_rule (filepath m) \<and>
              mapTransformers m = Throws (Error (''No transformer for '' @ filepath m)))"
proof -
  have no: "\<not> RegExp_test jsx_refresh_rule (filepath m)"
    using assms by (simp only: jsx_refresh_rule_accepts simp_thms)
  have chain: "\<forall>chain. mapTransformers m = Returns chain \<longrightarrow>
            ''react-refresh-transformer'' \<notin> fst ` set chain"
    using no by (auto simp add: mapTransformers_def split: if_splits)
  have matches: "RegExp_test script_rule (filepath m)"
    if "\<exists>w \<in> set [''.mtsx'', ''.mts'', ''.mjsx'', ''.mjs'', ''.ctsx'', ''.cts'', ''.cjsx'',
                      ''.cjs'', ''.tsx'', ''.ts'', ''.jsx'', ''.js'']. endsWith (filepath m) w"
    using that by (simp only: script_rule_accepts simp_thms)
  have script: "RegExp_test script_rule (filepath m) \<and>
              mapTransformers m =
                Returns [(''babel-transformer'',
                          JObj [(''presets'',
                                 JArr [JArr [JStr ''react'',
                                             JObj [(''runtime'', JStr ''automatic'')]]])])]"
    if "\<exists>w \<in> set [''.mtsx'', ''.mts'', ''.mjsx'', ''.mjs'', ''.ctsx'', ''.cts'', ''.cjsx'',
                      ''.cjs'', ''.tsx'', ''.ts'', ''.jsx'', ''.js'']. endsWith (filepath m) w"
      and "\<not> endsWith (filepath m) ''.d.ts''"
    using matches[OF that(1)] no that(2) by (simp add: mapTransformers_def)
  have dts: "RegExp_test script_rule (filepath m) \<and>
              mapTransformers m = Throws (Error (''No transformer for '' @ filepath m))"
    if d: "endsWith (filepath m) ''.d.ts''"
  proof -
    have "suffix ''.ts'' ''.d.ts''"
      by (simp add: suffix_to_prefix)
    from this d have ts: "endsWith (filepath m) ''.ts''"
      unfolding endsWith_def by (rule suffix_order.trans)
    then have s: "RegExp_test script_rule (filepath m)"
      unfolding script_rule_accepts by simp
    have "\<not> endsWith (filepath m) ''.css''"
    proof
      assume "endsWith (filepath m) ''.css''"
      with d have "suffix ''.d.ts'' ''.css'' \<or> suffix ''.css'' ''.d.ts''"
        unfolding endsWith_def by (rule suffix_same_cases)
      then show False
        by (simp add: suffix_to_prefix)
    qed
    then have "\<not> RegExp_test css_rule (filepath m)"
      by (simp only: css_rule_accepts simp_thms)
    with s no d show ?thesis
      by (simp add: mapTransformers_def)
  qed
  from no chain matches script dts show ?thesis by blast
qed

text \<open>
  Claim C10, amended, at the modules \<open>/node_modules/react/index.js\<close> and
  \<open>/node_modules/csstype/index.d.ts\<close>.
\<close>

theorem node_modules_never_refresh_witness:
  "prefix ''/node_modules/'' ''/node_modules/react/index.js'' \<and>
   endsWith ''/node_modules/react/index.js'' ''.js'' \<and>
   \<not> endsWith ''/node_modules/react/index.js'' ''.d.ts'' \<and>
   \<not> RegExp_test jsx_refresh_rule ''/node_modules/react/index.js'' \<and>
   mapTransformers \<lparr>filepath = ''/node_modules/react/index.js'', source = ''''\<rparr> =
     Returns [(''babel-transformer'',
               JObj [(''presets'',
                      JArr [JArr [JStr ''react'', JObj [(''runtime'', JStr ''automatic'')]]])])] \<and>
   prefix ''/node_modules/'' ''/node_modules/csstype/index.d.ts'' \<and>
   endsWith ''/node_modules/csstype/index.d.ts'' ''.d.ts'' \<and>
   mapTransformers \<lparr>filepath = ''/node_modules/csstype/index.d.ts'', source = ''''\<rparr> =
     Throws (Error ''No transformer for /node_modules/csstype/index.d.ts'')"
proof -
  have a: "prefix ''/node_modules/''
             (filepath \<lparr>filepath = ''/node_modules/react/index.js'', source = ''''\<rparr>)"
    by simp
  have b: "endsWith ''/node_modules/react/index.js'' ''.js''"
    by (simp add: endsWith_def suffix_def)
  have c: "\<not> endsWith ''/node_modules/react/index.js'' ''.d.ts''"
    by (simp add: endsWith_def suffix_to_prefix)
  have a': "prefix ''/node_modules/''
             (filepath \<lparr>filepath = ''/node_modules/csstype/index.d.ts'', source = ''''\<rparr>)"
    by simp
  have d: "endsWith ''/node_modules/csstype/index.d.ts'' ''.d.ts''"
    by (simp add: endsWith_def suffix_to_prefix)
  from node_modules_never_refresh [OF a] node_modules_never_refresh [OF a'] b c d
  show ?thesis
    by simp
qed

subsection \<open>Dependencies\<close>

text \<open>
  Claim C6. For every dependency map, \<open>augmentDependencies\<close> applied twice yields the
  same map as applied once, and every key of the input is a key of the result.
\<close>

theorem augmentDependencies_idempotent:
  "augmentDependencies (augmentDependencies d) = augmentDependencies d \<and>
   dom d \<subseteq> dom (augmentDependencies d)"
  by (auto simp add: augmentDependencies_def falsy_def Let_def fun_upd_twist split: option.splits)

section \<open>Properties of the preset registry\<close>

text \<open>
  Claim C7. \<open>getPreset\<close> returns a preset for every name (it has no failing branch): for
  a name registered in \<open>PRESET_MAP\<close>, that is \<open>react\<close> or \<open>solid\<close>, the registered
  preset, without a warning, and for every other name the React preset together with one
  warning that names the unknown preset.
\<close>

theorem getPreset_total:
  "(\<forall>p. map_of PRESET_MAP presetName = Some p \<longrightarrow> getPreset presetName = (p, [])) \<and>
   (map_of PRESET_MAP presetName = None \<longrightarrow>
      getPreset presetName =
        (ReactPreset, [''Unknown preset '' @ presetName @ '', falling back to React''])) \<and>
   (map_of PRESET_MAP presetName = None \<longleftrightarrow>
      presetName \<noteq> ''react'' \<and> presetName \<noteq> ''solid'') \<and>
   getPreset ''react'' = (ReactPreset, []) \<and>
   getPreset ''solid'' = (SolidPreset, [])"
  by (simp add: getPreset_def PRESET_MAP_def)

text \<open>
  Claim C7 at the registered name \<open>solid\<close> and at the unknown name \<open>vue\<close>.
\<close>

theorem getPreset_total_witness:
  "map_of PRESET_MAP ''solid'' = Some SolidPreset \<and>
   getPreset ''solid'' = (SolidPreset, []) \<and>
   map_of PRESET_MAP ''vue'' = None \<and>
   getPreset ''vue'' = (ReactPreset, [''Unknown preset vue, falling back to React''])"
  using getPreset_total [of "''solid''"] getPreset_total [of "''vue''"]
  by (simp add: PRESET_MAP_def)

section \<open>Properties of the compile cycle\<close>

lemma sent_append: "sent ty (xs @ ys) = sent ty xs @ sent ty ys"
  by (induction ty xs rule: sent.induct) auto

lemmas cycle_defs = cycle_trace_def cycle_result_def handleCompile_def Let_def sendMessage_def
  bundler_call_def configureFS_def resetModules_def replaceHTML_def sendResizeEvent_def
  status_def prologue_def

lemma sent_prologue:
  "sent ''status'' (prologue env req) = [status ''initializing'']"
  "sent ''action'' (prologue env req) = []"
  "sent ''done'' (prologue env req) = []"
  "sent ''success'' (prologue env req) = []"
  by (simp_all add: prologue_def sent_append status_def split: option.splits)

lemma calls_prologue:
  "Call (Compile fs) \<notin> set (prologue env req)"
  "Call Evaluate \<notin> set (prologue env req)"
  "Call ReplaceHTML \<notin> set (prologue env req)"
  by (simp_all add: prologue_def split: option.splits)

lemma cycle_init_fails:
  assumes "initPreset env (template req) = Throws e"
  shows "cycle_result env req s = Throws e" and "cycle_trace env req s = prologue env req"
  using assms by (simp_all add: cycle_defs split: option.splits)

lemma cycle_result_init_ok:
  assumes "initPreset env (template req) = Returns ()"
  shows "cycle_result env req s = Returns ()"
  using assms by (simp add: cycle_defs split: option.splits outcome.splits prod.splits)

lemma cycle_compile_fails:
  assumes "initPreset env (template req) = Returns ()"
    and "compile env (map snd (modules req)) = Throws e"
  shows "cycle_trace env req s =
           prologue env req @
           [Call (Compile (map snd (modules req))),
            Send ''action'' (Some (errorMessage env e)),
            Send ''done'' (Some (JObj [(''compilatonError'', JBool True)])),
            Call ReplaceHTML,
            Send ''status'' (status ''idle'')]"
  using assms by (simp add: cycle_defs split: option.splits)

lemma cycle_nothing_to_evaluate:
  assumes "initPreset env (template req) = Returns ()"
    and "compile env (map snd (modules req)) = Returns None"
  shows "cycle_trace env req s =
           prologue env req @
           [Call (Compile (map snd (modules req))),
            Send ''done'' (Some (JObj [(''compilatonError'', JBool False)])),
            Call ReplaceHTML,
            Send ''status'' (status ''idle'')]"
  using assms by (simp add: cycle_defs split: option.splits)

lemma cycle_evaluation_fails:
  assumes "initPreset env (template req) = Returns ()"
    and "compile env (map snd (modules req)) = Returns (Some (Throws e))"
  shows "cycle_trace env req s =
           prologue env req @
           [Call (Compile (map snd (modules req))),
            Send ''done'' (Some (JObj [(''compilatonError'', JBool False)])),
            Call ReplaceHTML,
            Send ''status'' (status ''evaluating''),
            Call Evaluate,
            Send ''action'' (Some (errorMessage env e)),
            Send ''status'' (status ''idle'')]"
  using assms by (simp add: cycle_defs split: option.splits)

lemma cycle_evaluation_returns:
  assumes "initPreset env (template req) = Returns ()"
    and "compile env (map snd (modules req)) = Returns (Some (Returns ()))"
  shows "cycle_trace env req s =
           prologue env req @
           [Call (Compile (map snd (modules req))),
            Send ''done'' (Some (JObj [(''compilatonError'', JBool False)])),
            Call ReplaceHTML,
            Send ''status'' (status ''evaluating''),
            Call Evaluate] @
           (if lastHeight s \<noteq> getDocumentHeight env
            then [Send ''resize'' (Some (JObj [(''height'', JNum (getDocumentHeight env))]))]
            else []) @
           [Send ''success'' None,
            Send ''status'' (status ''idle'')]"
  using assms by (simp add: cycle_defs split: option.splits)

lemma cycle_cases:
  assumes "initPreset env (template req) = Returns ()"
  obtains
    (compile_fails) e where "compile env (map snd (modules req)) = Throws e"
  | (nothing) "compile env (map snd (modules req)) = Returns None"
  | (evaluation_fails) e where "compile env (map snd (modules req)) = Returns (Some (Throws e))"
  | (evaluation_returns) "compile env (map snd (modules req)) = Returns (Some (Returns ()))"
proof (cases "compile env (map snd (modules req))")
  case (Returns val)
  show ?thesis
  proof (cases val)
    case None
    with Returns have "compile env (map snd (modules req)) = Returns None" by simp
    then show ?thesis by (rule nothing)
  next
    case (Some run)
    show ?thesis
    proof (cases run)
      case (Returns u)
      with Some \<open>compile env (map snd (modules req)) = Returns val\<close>
      have "compile env (map snd (modules req)) = Returns (Some (Returns ()))" by simp
      then show ?thesis by (rule evaluation_returns)
    next
      case (Throws e)
      with Some \<open>compile env (map snd (modules req)) = Returns val\<close>
      have "compile env (map snd (modules req)) = Returns (Some (Throws e))" by simp
      then show ?thesis by (rule evaluation_fails)
    qed
  qed
next
  case (Throws e)
  then show ?thesis by (rule compile_fails)
qed

lemma statuses_init_ok:
  assumes "initPreset env (template req) = Returns ()"
  shows "sent ''status'' (cycle_trace env req s) = [status ''initializing'', status ''idle''] \<or>
         sent ''status'' (cycle_trace env req s) =
           [status ''initializing'', status ''evaluating'', status ''idle'']"
  using assms
proof (cases rule: cycle_cases)
  case (compile_fails e)
  then show ?thesis
    by (simp add: cycle_compile_fails[OF assms] sent_append sent_prologue)
next
  case nothing
  then show ?thesis
    by (simp add: cycle_nothing_to_evaluate[OF assms] sent_append sent_prologue)
next
  case (evaluation_fails e)
  then show ?thesis
    by (simp add: cycle_evaluation_fails[OF assms] sent_append sent_prologue)
next
  case evaluation_returns
  then show ?thesis
    by (simp add: cycle_evaluation_returns[OF assms] sent_append sent_prologue)
qed

lemma status_values_distinct:
  "status ''initializing'' \<noteq> status ''idle''" "status ''evaluating'' \<noteq> status ''idle''"
  "status ''initializing'' \<noteq> status ''evaluating''"
  by (simp_all add: status_def)

text \<open>
  Claim C1 as stated fails when preset initialization fails: the promise of
  \<open>handleCompile\<close> rejects at \<open>await this.bundler.initPreset(...)\<close>, the only status
  sent is \<open>initializing\<close>, and \<open>idle\<close> is not sent.
\<close>

theorem idle_counterexample:
  "cycle_result init_failure example_request fresh_instance =
     Throws (Error ''transformer failed to load'') \<and>
   sent ''status'' (cycle_trace init_failure example_request fresh_instance) =
     [status ''initializing''] \<and>
   count_list (sent ''status'' (cycle_trace init_failure example_request fresh_instance))
     (status ''idle'') = 0"
  by (simp add: cycle_defs init_failure_def example_request_def fresh_instance_def)

text \<open>
  Claim C1, amended. For every compile cycle run by \<open>handleCompile\<close>, the sequence of
  status values it sends is a subsequence of \<open>initializing, evaluating, idle\<close>. When
  preset initialization succeeds, the cycle completes, the sequence ends in \<open>idle\<close> and
  \<open>idle\<close> is sent exactly once, on every path, those where compilation or evaluation
  fails included. When preset initialization fails, \<open>handleCompile\<close> rejects with that
  failure and the only status sent is \<open>initializing\<close>.
\<close>

theorem status_sequence:
  "subseq (sent ''status'' (cycle_trace env req s))
     [status ''initializing'', status ''evaluating'', status ''idle''] \<and>
   (initPreset env (template req) = Returns () \<longrightarrow>
      cycle_result env req s = Returns () \<and>
      last (sent ''status'' (cycle_trace env req s)) = status ''idle'' \<and>
      count_list (sent ''status'' (cycle_trace env req s)) (status ''idle'') = 1) \<and>
   (\<forall>e. initPreset env (template req) = Throws e \<longrightarrow>
      cycle_result env req s = Throws e \<and>
      sent ''status'' (cycle_trace env req s) = [status ''initializing''])"
proof (cases "initPreset env (template req)")
  case (Returns u)
  then have ok: "initPreset env (template req) = Returns ()" by simp
  from statuses_init_ok[OF ok, of s] status_values_distinct cycle_result_init_ok[OF ok, of s] ok
  show ?thesis by auto
next
  case (Throws e)
  then show ?thesis
    by (simp add: cycle_init_fails sent_prologue)
qed

text \<open>
  Claim C1, amended, at a cycle whose compilation fails and at a cycle whose preset
  initialization fails.
\<close>

theorem status_sequence_witness:
  "initPreset compile_failure (template example_request) = Returns () \<and>
   sent ''status'' (cycle_trace compile_failure example_request fresh_instance) =
     [status ''initializing'', status ''idle''] \<and>
   initPreset init_failure (template example_request) = Throws (Error ''transformer failed to load'') \<and>
   sent ''status'' (cycle_trace init_failure example_request fresh_instance) =
     [status ''initializing'']"
proof -
  have a: "initPreset compile_failure (template example_request) = Returns ()"
    by (simp add: compile_failure_def)
  have b: "initPreset init_failure (template example_request) =
             Throws (Error ''transformer failed to load'')"
    by (simp add: init_failure_def)
  have c: "sent ''status'' (cycle_trace compile_failure example_request fresh_instance) =
     [status ''initializing'', status ''idle'']"
    by (simp add: cycle_defs compile_failure_def example_request_def fresh_instance_def)
  from status_sequence [of compile_failure example_request fresh_instance]
       status_sequence [of init_failure example_request fresh_instance] a b c
  show ?thesis by simp
qed

text \<open>
  Claim C2 as stated fails when preset initialization fails: no \<open>action\<close> message is
  sent and the cycle does not reach \<open>idle\<close>.
\<close>

theorem action_counterexample:
  "sent ''action'' (cycle_trace init_failure example_request fresh_instance) = [] \<and>
   status ''idle'' \<notin> set (sent ''status'' (cycle_trace init_failure example_request fresh_instance))"
  by (simp add: cycle_defs init_failure_def example_request_def fresh_instance_def)

text \<open>
  Claim C2, amended. In every compile cycle whose preset initialization succeeds, a
  compile failure and an evaluation failure each result in exactly one outbound
  \<open>action\<close> message, carrying the payload built from the error, and the cycle still
  reaches \<open>idle\<close> and completes. When preset initialization fails, \<open>handleCompile\<close>
  rejects with that failure, having sent no \<open>action\<close> message and no \<open>idle\<close> status.
\<close>

theorem one_action_per_failure:
  "(\<forall>e. initPreset env (template req) = Returns () \<and>
        compile env (map snd (modules req)) = Throws e \<longrightarrow>
        sent ''action'' (cycle_trace env req s) = [Some (errorMessage env e)] \<and>
        last (sent ''status'' (cycle_trace env req s)) = status ''idle'' \<and>
        cycle_result env req s = Returns ()) \<and>
   (\<forall>e. initPreset env (template req) = Returns () \<and>
        compile env (map snd (modules req)) = Returns (Some (Throws e)) \<longrightarrow>
        sent ''action'' (cycle_trace env req s) = [Some (errorMessage env e)] \<and>
        last (sent ''status'' (cycle_trace env req s)) = status ''idle'' \<and>
        cycle_result env req s = Returns ()) \<and>
   (\<forall>e. initPreset env (template req) = Throws e \<longrightarrow>
        sent ''action'' (cycle_trace env req s) = [] \<and>
        status ''idle'' \<notin> set (sent ''status'' (cycle_trace env req s)) \<and>
        cycle_result env req s = Throws e)"
proof (intro conjI allI impI)
  fix e
  assume "initPreset env (template req) = Throws e"
  then show "sent ''action'' (cycle_trace env req s) = []"
    and "status ''idle'' \<notin> set (sent ''status'' (cycle_trace env req s))"
    and "cycle_result env req s = Throws e"
    using status_values_distinct by (simp_all add: cycle_init_fails sent_prologue)
next
  fix e
  assume a: "initPreset env (template req) = Returns () \<and>
        compile env (map snd (modules req)) = Throws e"
  then show "sent ''action'' (cycle_trace env req s) = [Some (errorMessage env e)]"
    and "last (sent ''status'' (cycle_trace env req s)) = status ''idle''"
    and "cycle_result env req s = Returns ()"
    by (simp_all add: cycle_compile_fails cycle_result_init_ok sent_append sent_prologue)
next
  fix e
  assume a: "initPreset env (template req) = Returns () \<and>
        compile env (map snd (modules req)) = Returns (Some (Throws e))"
  then show "sent ''action'' (cycle_trace env req s) = [Some (errorMessage env e)]"
    and "last (sent ''status'' (cycle_trace env req s)) = status ''idle''"
    and "cycle_result env req s = Returns ()"
    by (simp_all add: cycle_evaluation_fails cycle_result_init_ok sent_append sent_prologue)
qed

text \<open>
  Claim C2, amended, at a cycle of each of the three kinds.
\<close>

theorem one_action_per_failure_witness:
  "(initPreset compile_failure (template example_request) = Returns () \<and>
    compile compile_failure (map snd (modules example_request)) = Throws (Error ''Unexpected token'')) \<and>
   sent ''action'' (cycle_trace compile_failure example_request fresh_instance) =
     [Some (show_error (Error ''Unexpected token''))] \<and>
   (initPreset evaluation_failure (template example_request) = Returns () \<and>
    compile evaluation_failure (map snd (modules example_request)) =
      Returns (Some (Throws (Error ''x is not defined'')))) \<and>
   sent ''action'' (cycle_trace evaluation_failure example_request fresh_instance) =
     [Some (show_error (Error ''x is not defined''))] \<and>
   initPreset init_failure (template example_request) =
     Throws (Error ''transformer failed to load'') \<and>
   sent ''action'' (cycle_trace init_failure example_request fresh_instance) = []"
proof -
  have a: "initPreset compile_failure (template example_request) = Returns () \<and>
    compile compile_failure (map snd (modules example_request)) = Throws (Error ''Unexpected token'')"
    by (simp add: compile_failure_def)
  have b: "initPreset evaluation_failure (template example_request) = Returns () \<and>
    compile evaluation_failure (map snd (modules example_request)) =
      Returns (Some (Throws (Error ''x is not defined'')))"
    by (simp add: evaluation_failure_def)
  have c: "initPreset init_failure (template example_request) =
     Throws (Error ''transformer failed to load'')"
    by (simp add: init_failure_def)
  have d: "errorMessage compile_failure = show_error" "errorMessage evaluation_failure = show_error"
    by (simp_all add: compile_failure_def evaluation_failure_def)
  from one_action_per_failure [of compile_failure example_request fresh_instance]
       one_action_per_failure [of evaluation_failure example_request fresh_instance]
       one_action_per_failure [of init_failure example_request fresh_instance]
       a b c d
  show ?thesis by simp
qed

text \<open>
  Claim C3 as stated fails on the name of the field: the payload of the \<open>done\<close> message
  has no field \<open>compilationError\<close>; both sites of \<open>handleCompile\<close> that send it
  spell the field \<open>compilatonError\<close>.
\<close>

theorem done_field_counterexample:
  "map (field ''compilationError'')
     (sent ''done'' (cycle_trace compile_failure example_request fresh_instance)) = [None] \<and>
   map (field ''compilatonError'')
     (sent ''done'' (cycle_trace compile_failure example_request fresh_instance)) =
     [Some (JBool True)]"
  by (simp add: cycle_defs compile_failure_def example_request_def fresh_instance_def)

text \<open>
  Claim C3, amended. After the compile phase of every cycle (preset initialization having
  succeeded), exactly one \<open>done\<close> message is sent; its payload has the single field
  \<open>compilatonError\<close>, false when compile succeeded and true when it failed; the HTML is
  replaced in either case. On compile failure the \<open>action\<close> message carrying the payload
  built from the error is sent just before that \<open>done\<close> message, it is the only
  \<open>action\<close> message, and the program is not evaluated.
\<close>

theorem done_after_compile:
  assumes "initPreset env (template req) = Returns ()"
  shows "sent ''done'' (cycle_trace env req s) =
           [Some (JObj [(''compilatonError'',
                         JBool (case compile env (map snd (modules req)) of
                                  Throws e \<Rightarrow> True | Returns val \<Rightarrow> False))])] \<and>
         Call ReplaceHTML \<in> set (cycle_trace env req s) \<and>
         (\<forall>e. compile env (map snd (modules req)) = Throws e \<longrightarrow>
            suffix [Call (Compile (map snd (modules req))),
                    Send ''action'' (Some (errorMessage env e)),
                    Send ''done'' (Some (JObj [(''compilatonError'', JBool True)])),
                    Call ReplaceHTML,
                    Send ''status'' (status ''idle'')]
                   (cycle_trace env req s) \<and>
            sent ''action'' (cycle_trace env req s) = [Some (errorMessage env e)] \<and>
            Call Evaluate \<notin> set (cycle_trace env req s))"
  using assms
proof (cases rule: cycle_cases)
  case (compile_fails e)
  then show ?thesis
    by (simp add: cycle_compile_fails[OF assms] sent_append sent_prologue calls_prologue
        suffix_def)
next
  case nothing
  then show ?thesis
    by (simp add: cycle_nothing_to_evaluate[OF assms] sent_append sent_prologue)
next
  case (evaluation_fails e)
  then show ?thesis
    by (simp add: cycle_evaluation_fails[OF assms] sent_append sent_prologue)
next
  case evaluation_returns
  then show ?thesis
    by (simp add: cycle_evaluation_returns[OF assms] sent_append sent_prologue)
qed

text \<open>
  Claim C3, amended, at a cycle whose compilation fails.
\<close>

theorem done_after_compile_witness:
  "initPreset compile_failure (template example_request) = Returns () \<and>
   compile compile_failure (map snd (modules example_request)) = Throws (Error ''Unexpected token'') \<and>
   sent ''done'' (cycle_trace compile_failure example_request fresh_instance) =
     [Some (JObj [(''compilatonError'', JBool True)])] \<and>
   Call Evaluate \<notin> set (cycle_trace compile_failure example_request fresh_instance)"
proof -
  have a: "initPreset compile_failure (template example_request) = Returns ()"
    by (simp add: compile_failure_def)
  have b: "compile compile_failure (map snd (modules example_request)) =
             Throws (Error ''Unexpected token'')"
    by (simp add: compile_failure_def)
  from done_after_compile [OF a, of fresh_instance] a b show ?thesis by simp
qed

text \<open>
  Claim C9 as stated fails on the name of the field: in a cycle whose evaluation throws,
  the \<open>done\<close> message has no field \<open>compilationError\<close>; it carries
  \<open>compilatonError\<close>, false.
\<close>

theorem evaluation_failure_counterexample:
  "map (field ''compilationError'')
     (sent ''done'' (cycle_trace evaluation_failure example_request fresh_instance)) = [None] \<and>
   map (field ''compilatonError'')
     (sent ''done'' (cycle_trace evaluation_failure example_request fresh_instance)) =
     [Some (JBool False)]"
  by (simp add: cycle_defs evaluation_failure_def example_request_def fresh_instance_def)

text \<open>
  Claim C9, amended. For every cycle in which compile succeeds and the evaluation throws,
  the cycle sends, in this order: the \<open>done\<close> message with \<open>compilatonError\<close> false,
  (the HTML being replaced and \<open>status=evaluating\<close> sent in between,) then exactly one
  \<open>action\<close> message carrying the payload built from the error, then \<open>status=idle\<close>;
  and no \<open>success\<close> message is sent.
\<close>

theorem evaluation_failure_order:
  assumes "initPreset env (template req) = Returns ()"
    and "compile env (map snd (modules req)) = Returns (Some (Throws e))"
  shows "suffix [Send ''done'' (Some (JObj [(''compilatonError'', JBool False)])),
                 Call ReplaceHTML,
                 Send ''status'' (status ''evaluating''),
                 Call Evaluate,
                 Send ''action'' (Some (errorMessage env e)),
                 Send ''status'' (status ''idle'')]
                (cycle_trace env req s) \<and>
         sent ''done'' (cycle_trace env req s) =
           [Some (JObj [(''compilatonError'', JBool False)])] \<and>
         sent ''action'' (cycle_trace env req s) = [Some (errorMessage env e)] \<and>
         sent ''status'' (cycle_trace env req s) =
           [status ''initializing'', status ''evaluating'', status ''idle''] \<and>
         sent ''success'' (cycle_trace env req s) = []"
proof -
  have "suffix [Send ''done'' (Some (JObj [(''compilatonError'', JBool False)])),
                 Call ReplaceHTML,
                 Send ''status'' (status ''evaluating''),
                 Call Evaluate,
                 Send ''action'' (Some (errorMessage env e)),
                 Send ''status'' (status ''idle'')]
                (cycle_trace env req s)"
    unfolding cycle_evaluation_fails[OF assms] suffix_def
    by (rule exI[of _ "prologue env req @ [Call (Compile (map snd (modules req)))]"]) simp
  then show ?thesis
    by (simp add: cycle_evaluation_fails[OF assms] sent_append sent_prologue)
qed

text \<open>
  Claim C9, amended, at a cycle whose evaluation throws.
\<close>

theorem evaluation_failure_order_witness:
  "initPreset evaluation_failure (template example_request) = Returns () \<and>
   compile evaluation_failure (map snd (modules example_request)) =
     Returns (Some (Throws (Error ''x is not defined''))) \<and>
   sent ''action'' (cycle_trace evaluation_failure example_request fresh_instance) =
     [Some (show_error (Error ''x is not defined''))] \<and>
   sent ''success'' (cycle_trace evaluation_failure example_request fresh_instance) = []"
proof -
  have a: "initPreset evaluation_failure (template example_request) = Returns ()"
    by (simp add: evaluation_failure_def)
  have b: "compile evaluation_failure (map snd (modules example_request)) =
     Returns (Some (Throws (Error ''x is not defined'')))"
    by (simp add: evaluation_failure_def)
  have d: "errorMessage evaluation_failure = show_error"
    by (simp add: evaluation_failure_def)
  from evaluation_failure_order [OF a b, of fresh_instance] a b d show ?thesis by simp
qed

section \<open>Initialization of the preset\<close>

lemma first_rejection_mem:
  "first_rejection ps settled = Some e \<Longrightarrow> Throws e \<in> set ps"
  by (induction settled) (auto split: if_splits outcome.splits simp: in_set_conv_nth)

lemma first_rejection_some:
  "i \<in> set settled \<Longrightarrow> i < length ps \<Longrightarrow> ps ! i = Throws e \<Longrightarrow>
   \<exists>e'. first_rejection ps settled = Some e'"
  by (induction settled) (auto split: outcome.splits)

lemma Promise_all_rejects:
  assumes "i \<in> set settled" "i < length ps" "ps ! i = Throws e"
  shows "\<exists>e'. Promise_all ps settled = Throws e' \<and> Throws e' \<in> set ps"
  using first_rejection_some[OF assms] first_rejection_mem[of ps settled]
  by (auto simp: Promise_all_def)

lemma registration_index:
  "\<exists>i < 4. [reg BabelTransformer, reg ReactRefreshTransformer, reg CSSTransformer,
             reg StyleTransformer] ! i = reg t"
proof (cases t)
  case BabelTransformer
  then show ?thesis by (intro exI[of _ 0]) simp
next
  case ReactRefreshTransformer
  then show ?thesis by (intro exI[of _ 1]) simp
next
  case CSSTransformer
  then show ?thesis by (intro exI[of _ 2]) simp
next
  case StyleTransformer
  then show ?thesis by (intro exI[of _ 3]) simp
qed

lemma ReactPreset_init_rejects:
  assumes "reg t = Throws e" and "set settled = {0, 1, 2, 3}"
  shows "\<exists>e' t'. reg t' = Throws e' \<and> ReactPreset_init (Returns ()) reg settled = Throws e'"
proof -
  let ?ps = "[reg BabelTransformer, reg ReactRefreshTransformer, reg CSSTransformer,
              reg StyleTransformer]"
  obtain i where i: "i < 4" "?ps ! i = reg t"
    using registration_index by blast
  from i(1) assms(2) have "i \<in> set settled" by auto
  moreover have "i < length ?ps" using i(1) by simp
  moreover have "?ps ! i = Throws e" using i(2) assms(1) by simp
  ultimately obtain e' where e': "Promise_all ?ps settled = Throws e'" "Throws e' \<in> set ?ps"
    using Promise_all_rejects by blast
  from e'(2) obtain t' where "reg t' = Throws e'" by auto
  moreover from e'(1) have "ReactPreset_init (Returns ()) reg settled = Throws e'"
    by (simp add: ReactPreset_init_def)
  ultimately show ?thesis by blast
qed

text \<open>
  Claim C8. Let the registrations of \<open>ReactPreset.init\<close> have been started
  (\<open>super.init\<close> returned), let every one of them settle, and let one of them fail.
  Then \<open>init\<close> fails as a whole, with the failure of a registration (with that very
  failure when no other registration fails). In a cycle whose \<open>bundler.initPreset\<close>
  settles as this \<open>init\<close> does, \<open>handleCompile\<close> rejects with the same failure, and
  \<open>bundler.compile\<close> is not called and no \<open>done\<close> message is sent.
\<close>

theorem registration_failure_aborts:
  assumes "registerTransformer t = Throws e"
    and "set settled = {0, 1, 2, 3}"
    and "initPreset env (template req) =
           ReactPreset_init (Returns ()) registerTransformer settled"
  shows "\<exists>e' t'. registerTransformer t' = Throws e' \<and>
           ReactPreset_init (Returns ()) registerTransformer settled = Throws e' \<and>
           cycle_result env req s = Throws e' \<and>
           (\<forall>files. Call (Compile files) \<notin> set (cycle_trace env req s)) \<and>
           sent ''done'' (cycle_trace env req s) = [] \<and>
           ((\<forall>u. u \<noteq> t \<longrightarrow> registerTransformer u = Returns ()) \<longrightarrow> e' = e)"
proof -
  from ReactPreset_init_rejects[of registerTransformer t e settled, OF assms(1,2)] obtain e' t'
    where r: "registerTransformer t' = Throws e'"
      "ReactPreset_init (Returns ()) registerTransformer settled = Throws e'"
    by blast
  from r(2) assms(3) have f: "initPreset env (template req) = Throws e'" by simp
  have only: "e' = e" if "\<forall>u. u \<noteq> t \<longrightarrow> registerTransformer u = Returns ()"
  proof (cases "t' = t")
    case True
    with r(1) assms(1) show ?thesis by simp
  next
    case False
    with that r(1) show ?thesis by simp
  qed
  have "sent ''done'' (prologue env req) = []"
    by (simp add: prologue_def status_def split: option.splits)
  with r f only show ?thesis
    by (auto simp add: cycle_init_fails calls_prologue)
qed

text \<open>
  Claim C8 at a cycle in which the registration of the CSS transformer fails, the four
  registrations settling in the order Style, Babel, CSS, ReactRefresh.
\<close>

theorem registration_failure_aborts_witness:
  "css_fails CSSTransformer = Throws (Error ''css worker failed'') \<and>
   set [3, 0, 2, 1::nat] = {0, 1, 2, 3} \<and>
   initPreset css_init_failure (template example_request) =
     ReactPreset_init (Returns ()) css_fails [3, 0, 2, 1] \<and>
   cycle_result css_init_failure example_request fresh_instance =
     Throws (Error ''css worker failed'') \<and>
   sent ''done'' (cycle_trace css_init_failure example_request fresh_instance) = []"
proof -
  have a: "css_fails CSSTransformer = Throws (Error ''css worker failed'')"
    by (simp add: css_fails_def)
  have b: "set [3, 0, 2, 1::nat] = {0, 1, 2, 3}"
    by auto
  have c: "initPreset css_init_failure (template example_request) =
     ReactPreset_init (Returns ()) css_fails [3, 0, 2, 1]"
    by (simp add: css_init_failure_def)
  have d: "\<forall>u. u \<noteq> CSSTransformer \<longrightarrow> css_fails u = Returns ()"
    by (simp add: css_fails_def)
  from registration_failure_aborts [OF a b c, of fresh_instance] d
  have "cycle_result css_init_failure example_request fresh_instance =
          Throws (Error ''css worker failed'') \<and>
        sent ''done'' (cycle_trace css_init_failure example_request fresh_instance) = []"
    by auto
  with a b c show ?thesis by simp
qed

end
